theory Spec2Isabelle
  imports Complex_Main "HOL-Library.Multiset"
begin

section \<open>The Wayland core of the window manager (libqtile/backend/wayland/core.py)\<close>

text \<open>
  The class \<open>Core\<close> is a callback-driven state machine. Its Python attributes become the
  fields of the record \<open>core\<close>; every object the code holds by reference (windows,
  outputs, pointer constraints, surfaces, clients) is a number standing for the object's
  identity, so Python's \<open>is\<close> and the default \<open>==\<close> are equality of references, and
  the attributes of an object are read through a store (\<open>win_of\<close>, \<open>output_of\<close>).
  Calls into the compositor library, the seat, the cursor and the layout collaborator
  are appended to the field \<open>effects\<close> in program order; the library state that the
  code reads back (seat focus, cursor position, output layout, output state) is part
  of the record.  Cursor coordinates and deltas are Python floats and are taken as
  reals; window geometry is Python \<open>int\<close>.
\<close>

subsection \<open>Data model\<close>

type_synonym ref = nat

datatype error = AssertionError | ValueError

datatype win_class = Internal | Window | Static | LayerStatic | XStatic

datatype LayerShellV1Layer = BACKGROUND | BOTTOM | TOP | OVERLAY

datatype surface_role = XdgRole | XWaylandRole | OtherRole

datatype AxisOrientation = VERTICAL | HORIZONTAL

text \<open>
  A window object.  \<open>win_class\<close> is the Python class: \<open>Internal\<close> is
  \<open>window.Internal\<close> (a \<open>base.Internal\<close>), \<open>Window\<close> a \<open>window.Window\<close>,
  and \<open>Static\<close>, \<open>LayerStatic\<close>, \<open>XStatic\<close> are \<open>window.Static\<close> and its two
  subclasses tested by \<open>focus_window\<close>.  \<open>win_client\<close> is the client that owns the
  window's surface (\<open>belongs_to_client\<close>); \<open>win_surface\<close> is \<open>win.surface.surface\<close>.
\<close>

record win =
  win_class :: win_class
  win_x :: int
  win_y :: int
  win_width :: int
  win_height :: int
  borderwidth :: int
  win_client :: "ref option"
  win_surface :: ref
  win_screen :: int
  win_group :: "ref option"
  ftm_handle :: bool
  keyboard_interactive :: bool
  override_redirect :: bool
  or_surface_wants_focus :: bool
  icccm_input_none :: bool

text \<open>The double-buffered state of a \<open>wlr_output\<close>: setters write the pending
  state, \<open>commit\<close> makes it current, \<open>rollback\<close> discards it.\<close>

datatype output_mode = NoMode | Mode ref | CustomMode int int int

record output_state =
  os_enabled :: bool
  os_mode :: output_mode
  os_transform :: nat
  os_scale :: real

text \<open>An \<open>Output\<close> with its \<open>wlr_output\<close>: the four layer-shell lists and the
  current and pending state of the \<open>wlr_output\<close>.\<close>

record Output =
  layers :: "LayerShellV1Layer \<Rightarrow> ref list"
  current_state :: output_state
  pending_state :: output_state

record group =
  group_current_window :: "ref option"
  group_screen :: "int option"

text \<open>The part of the manager (\<open>Qtile\<close>) that the core reads.  \<open>windows_map\<close> is the
  dict of managed windows in insertion order; \<open>button_click_handled\<close> and
  \<open>button_release_handled\<close> are what \<open>process_button_click\<close> and
  \<open>process_button_release\<close> return, that is whether a binding claims the button.\<close>

record qtile =
  windows_map :: "(int \<times> ref) list"
  current_window :: "ref option"
  current_screen :: int
  follow_mouse_focus :: bool
  group_of :: "ref \<Rightarrow> group"
  button_click_handled :: "int \<Rightarrow> nat \<Rightarrow> int \<Rightarrow> int \<Rightarrow> bool"
  button_release_handled :: "int \<Rightarrow> nat \<Rightarrow> bool"

record PointerConstraint =
  pc_surface :: ref
  pc_window :: "ref option"
  rect_contains_point :: "real \<Rightarrow> real \<Rightarrow> bool"

text \<open>The state of one head of an \<open>OutputConfigurationV1\<close>.\<close>

record head_state =
  hs_output :: ref
  hs_enabled :: bool
  hs_mode :: "ref option"
  hs_custom_mode :: "int \<times> int \<times> int"
  hs_x :: int
  hs_y :: int
  hs_transform :: nat
  hs_scale :: real

record PointerEventAxis =
  ax_time_msec :: nat
  ax_orientation :: AxisOrientation
  ax_delta :: real
  ax_delta_discrete :: int
  ax_source :: nat

record PointerEventMotion =
  mo_time_msec :: nat
  mo_delta_x :: real
  mo_delta_y :: real
  mo_unaccel_delta_x :: real
  mo_unaccel_delta_y :: real

datatype effect =
    Idle_notify_activity
  | Send_relative_motion nat real real real real
  | Cursor_move real real
  | Set_cursor_image string
  | Pointer_notify_axis nat AxisOrientation real int nat
  | Pointer_notify_enter ref real real
  | Pointer_notify_motion nat real real
  | Pointer_notify_clear_focus
  | Keyboard_clear_focus
  | Keyboard_notify_enter ref
  | Xdg_set_activated ref bool
  | Xwayland_activate ref bool
  | Surface_data_set_activated ref bool
  | Ftm_set_activated ref bool
  | Qtile_process_button_click int nat int int
  | Qtile_process_button_release int nat
  | Qtile_process_button_motion int int
  | Qtile_focus_screen int bool
  | Group_focus ref ref bool
  | Hook_fire string "ref option"
  | Internal_process_button_click ref int int int
  | Internal_process_button_release ref int int int
  | Internal_process_pointer_motion ref int int
  | Internal_process_pointer_enter ref int int
  | Internal_process_pointer_leave ref int int
  | Dnd_position real real
  | Constraint_send_activated ref
  | Constraint_send_deactivated ref
  | Config_send_succeeded
  | Config_send_failed
  | Config_destroy

record core =
  qtile :: "qtile option"
  win_of :: "ref \<Rightarrow> win"
  output_of :: "ref \<Rightarrow> Output"
  constraint_of :: "ref \<Rightarrow> PointerConstraint"
  surface_at :: "ref \<Rightarrow> real \<Rightarrow> real \<Rightarrow> (ref \<times> real \<times> real) option"
  surface_role :: "ref \<Rightarrow> surface_role"
  surface_has_data :: "ref \<Rightarrow> bool"
  backend_test :: "ref \<Rightarrow> output_state \<Rightarrow> bool"
  layout_output_at :: "real \<Rightarrow> real \<Rightarrow> ref option"
  cursor_closest :: "real \<Rightarrow> real \<Rightarrow> real \<times> real"
  hovered_window :: "ref option"
  focused_internal :: "ref option"
  mapped_windows :: "ref list"
  stacked_windows :: "ref list"
  current_output :: "ref option"
  outputs :: "ref list"
  output_layout :: "(ref \<times> int \<times> int) list"
  exclusive_client :: "ref option"
  pointer_constraints :: "ref set"
  active_pointer_constraint :: "ref option"
  activated_constraints :: "ref set"
  live_dnd :: bool
  seat_destroyed :: bool
  seat_keyboard_null :: bool
  keyboard_modifier :: nat
  pointer_focused_surface :: "ref option"
  keyboard_focused_surface :: "ref option"
  cursor_x :: real
  cursor_y :: real
  effects :: "effect list"

definition emit :: "effect \<Rightarrow> core \<Rightarrow> core" where
  "emit e s = s\<lparr>effects := effects s @ [e]\<rparr>"

text \<open>Python's \<open>int(f)\<close> on a float truncates towards zero.\<close>

definition py_int :: "real \<Rightarrow> int" where
  "py_int r = (if 0 \<le> r then \<lfloor>r\<rfloor> else \<lceil>r\<rceil>)"

subsection \<open>\<open>new_wid\<close>\<close>

text \<open>\<open>max(keys, default=0)\<close>: the default for an empty iterable, otherwise the
  running maximum from the first element on.\<close>

definition py_max_default :: "int list \<Rightarrow> int \<Rightarrow> int" where
  "py_max_default ks d = (case ks of [] \<Rightarrow> d | k # ks' \<Rightarrow> fold max ks' k)"

definition new_wid :: "core \<Rightarrow> error + int" where
  "new_wid s =
     (case qtile s of
        None \<Rightarrow> Inl AssertionError
      | Some q \<Rightarrow> Inr (py_max_default (map fst (windows_map q)) 0 + 1))"

subsection \<open>\<open>stack_windows\<close> and \<open>_under_pointer\<close>\<close>

text \<open>\<open>list.remove\<close> raises \<open>ValueError\<close> when the element is absent and deletes
  the first occurrence otherwise.\<close>

definition stack_windows :: "core \<Rightarrow> ref option \<Rightarrow> error + core" where
  "stack_windows s restack =
     (let r1 =
        (case restack of
           None \<Rightarrow> Inr s
         | Some w \<Rightarrow>
             if w \<in> set (mapped_windows s)
             then Inr (s\<lparr>mapped_windows := remove1 w (mapped_windows s) @ [w]\<rparr>)
             else Inl ValueError)
      in case r1 of
           Inl e \<Rightarrow> Inl e
         | Inr s1 \<Rightarrow>
             (case current_output s1 of
                Some out \<Rightarrow>
                  (let ls = layers (output_of s1 out)
                   in Inr (s1\<lparr>stacked_windows :=
                        ls BACKGROUND @ ls BOTTOM @ mapped_windows s1 @ ls TOP @ ls OVERLAY\<rparr>))
              | None \<Rightarrow> Inr (s1\<lparr>stacked_windows := mapped_windows s1\<rparr>)))"

text \<open>The body of the loop of \<open>_under_pointer\<close> for one window: what it returns
  there, or \<open>None\<close> when the loop goes on to the next window.\<close>

definition hit_window ::
  "core \<Rightarrow> real \<Rightarrow> real \<Rightarrow> ref \<Rightarrow> (ref \<times> ref option \<times> real \<times> real) option" where
  "hit_window s cx cy r =
     (let w = win_of s r in
      if win_class w = Internal then
        (if of_int (win_x w) \<le> cx \<and> cx \<le> of_int (win_x w + win_width w)
            \<and> of_int (win_y w) \<le> cy \<and> cy \<le> of_int (win_y w + win_height w)
         then Some (r, None, 0, 0) else None)
      else
        (let bw = borderwidth w in
         case surface_at s r (cx - of_int (win_x w) - of_int bw)
                             (cy - of_int (win_y w) - of_int bw) of
           Some (sf, sx, sy) \<Rightarrow> Some (r, Some sf, sx, sy)
         | None \<Rightarrow>
             if bw \<noteq> 0 then
               (if of_int (win_x w) \<le> cx \<and> of_int (win_y w) \<le> cy then
                  (let bw2 = bw * 2 in
                   if cx \<le> of_int (win_x w + win_width w + bw2)
                      \<and> cy \<le> of_int (win_y w + win_height w + bw2)
                   then Some (r, None, 0, 0) else None)
                else None)
             else None))"

fun under_pointer_loop ::
  "core \<Rightarrow> real \<Rightarrow> real \<Rightarrow> ref list \<Rightarrow> (ref \<times> ref option \<times> real \<times> real) option" where
  "under_pointer_loop s cx cy [] = None"
| "under_pointer_loop s cx cy (r # rs) =
     (case hit_window s cx cy r of
        Some found \<Rightarrow> Some found
      | None \<Rightarrow> under_pointer_loop s cx cy rs)"

definition under_pointer :: "core \<Rightarrow> error + (ref \<times> ref option \<times> real \<times> real) option" where
  "under_pointer s =
     (if qtile s = None then Inl AssertionError
      else Inr (under_pointer_loop s (cursor_x s) (cursor_y s) (rev (stacked_windows s))))"

text \<open>The specification's words for "the window contains the point": an internal window by its
  bounding box, any other window by the surface-level hit test or, with a nonzero border
  width, by the box from its origin to its size plus twice the border width.\<close>

definition contains_point_spec :: "core \<Rightarrow> real \<Rightarrow> real \<Rightarrow> ref \<Rightarrow> bool" where
  "contains_point_spec s cx cy r =
     (let w = win_of s r in
      if win_class w = Internal then
        of_int (win_x w) \<le> cx \<and> cx \<le> of_int (win_x w) + of_int (win_width w)
        \<and> of_int (win_y w) \<le> cy \<and> cy \<le> of_int (win_y w) + of_int (win_height w)
      else
        surface_at s r (cx - of_int (win_x w) - of_int (borderwidth w))
                       (cy - of_int (win_y w) - of_int (borderwidth w)) \<noteq> None
        \<or> (borderwidth w \<noteq> 0
            \<and> of_int (win_x w) \<le> cx \<and> of_int (win_y w) \<le> cy
            \<and> cx \<le> of_int (win_x w) + of_int (win_width w) + 2 * of_int (borderwidth w)
            \<and> cy \<le> of_int (win_y w) + of_int (win_height w) + 2 * of_int (borderwidth w)))"

subsection \<open>Outputs: \<open>remove_output\<close> and \<open>_output_manager_reconfigure\<close>\<close>

text \<open>The output layout keeps the outputs it contains with their positions.
  \<open>add\<close> moves an output that is already there and appends it otherwise (as the
  comment in \<open>_output_manager_reconfigure\<close> says); \<open>remove\<close> deletes it.\<close>

definition output_layout_add :: "ref \<Rightarrow> int \<Rightarrow> int \<Rightarrow> core \<Rightarrow> core" where
  "output_layout_add out x y s =
     s\<lparr>output_layout :=
          (if out \<in> fst ` set (output_layout s)
           then map (\<lambda>(o', p). if o' = out then (o', (x, y)) else (o', p)) (output_layout s)
           else output_layout s @ [(out, (x, y))])\<rparr>"

definition output_layout_remove :: "ref \<Rightarrow> core \<Rightarrow> core" where
  "output_layout_remove out s =
     s\<lparr>output_layout := filter (\<lambda>(o', p). o' \<noteq> out) (output_layout s)\<rparr>"


text \<open>The setters of a \<open>wlr_output\<close> write its pending state, \<open>test\<close> asks the
  backend whether the pending state would be accepted, \<open>commit\<close> makes the pending
  state current and \<open>rollback\<close> drops it.\<close>

definition set_pending :: "ref \<Rightarrow> (output_state \<Rightarrow> output_state) \<Rightarrow> core \<Rightarrow> core" where
  "set_pending out f s =
     s\<lparr>output_of := (output_of s)
          (out := (output_of s out)\<lparr>pending_state := f (pending_state (output_of s out))\<rparr>)\<rparr>"

definition wlr_output_enabled :: "core \<Rightarrow> ref \<Rightarrow> bool" where
  "wlr_output_enabled s out = os_enabled (current_state (output_of s out))"

definition wlr_output_test :: "core \<Rightarrow> ref \<Rightarrow> bool" where
  "wlr_output_test s out = backend_test s out (pending_state (output_of s out))"

definition wlr_output_commit :: "ref \<Rightarrow> core \<Rightarrow> core" where
  "wlr_output_commit out s =
     s\<lparr>output_of := (output_of s)
          (out := (output_of s out)\<lparr>current_state := pending_state (output_of s out)\<rparr>)\<rparr>"

definition wlr_output_rollback :: "ref \<Rightarrow> core \<Rightarrow> core" where
  "wlr_output_rollback out s =
     s\<lparr>output_of := (output_of s)
          (out := (output_of s out)\<lparr>pending_state := current_state (output_of s out)\<rparr>)\<rparr>"

text \<open>The body of the first loop for one head, up to the call of \<open>test\<close>.\<close>

definition configure_head :: "head_state \<Rightarrow> core \<Rightarrow> core" where
  "configure_head h s =
     (let out = hs_output h in
      if hs_enabled h then
        (let s1 = (if \<not> wlr_output_enabled s out
                   then set_pending out (\<lambda>st. st\<lparr>os_enabled := True\<rparr>) s else s);
             s2 = (case hs_mode h of
                     Some m \<Rightarrow> set_pending out (\<lambda>st. st\<lparr>os_mode := Mode m\<rparr>) s1
                   | None \<Rightarrow>
                       (case hs_custom_mode h of (w, ht, rf) \<Rightarrow>
                          set_pending out (\<lambda>st. st\<lparr>os_mode := CustomMode w ht rf\<rparr>) s1));
             s3 = output_layout_add out (hs_x h) (hs_y h) s2;
             s4 = set_pending out (\<lambda>st. st\<lparr>os_transform := hs_transform h\<rparr>) s3
         in set_pending out (\<lambda>st. st\<lparr>os_scale := hs_scale h\<rparr>) s4)
      else
        (let s1 = (if wlr_output_enabled s out
                   then set_pending out (\<lambda>st. st\<lparr>os_enabled := False\<rparr>) s else s)
         in output_layout_remove out s1))"

text \<open>The first loop: \<open>ok\<close> starts as \<open>True\<close>, becomes the result of each test, and
  the loop breaks at the first head that fails.\<close>

fun test_heads :: "core \<Rightarrow> head_state list \<Rightarrow> core \<times> bool" where
  "test_heads s [] = (s, True)"
| "test_heads s (h # hs) =
     (let s1 = configure_head h s in
      if wlr_output_test s1 (hs_output h) then test_heads s1 hs else (s1, False))"

text \<open>The second loop: every head is committed, or every head is rolled back.\<close>

fun finish_heads :: "bool \<Rightarrow> core \<Rightarrow> head_state list \<Rightarrow> core" where
  "finish_heads c s [] = s"
| "finish_heads c s (h # hs) =
     finish_heads c
       ((if c then wlr_output_commit (hs_output h) else wlr_output_rollback (hs_output h)) s) hs"

definition output_manager_reconfigure :: "core \<Rightarrow> head_state list \<Rightarrow> bool \<Rightarrow> core" where
  "output_manager_reconfigure s heads apply =
     (case test_heads s heads of (s1, ok) \<Rightarrow>
        (let s2 = finish_heads (ok \<and> apply) s1 heads;
             s3 = emit (if ok then Config_send_succeeded else Config_send_failed) s2;
             s4 = emit Config_destroy s3
         in emit (Hook_fire ''screen_change'' None) s4))"

subsection \<open>The seat and the cursor\<close>

text \<open>The seat calls the core makes, with the focus state the core reads back from
  \<open>seat.pointer_state.focused_surface\<close> and \<open>seat.keyboard_state.focused_surface\<close>.\<close>

definition set_cursor_image :: "string \<Rightarrow> core \<Rightarrow> core" where
  "set_cursor_image name s = emit (Set_cursor_image name) s"

definition pointer_notify_clear_focus :: "core \<Rightarrow> core" where
  "pointer_notify_clear_focus s = (emit Pointer_notify_clear_focus s)\<lparr>pointer_focused_surface := None\<rparr>"

definition pointer_notify_enter :: "ref \<Rightarrow> real \<Rightarrow> real \<Rightarrow> core \<Rightarrow> core" where
  "pointer_notify_enter sf sx sy s =
     (emit (Pointer_notify_enter sf sx sy) s)\<lparr>pointer_focused_surface := Some sf\<rparr>"



definition is_internal :: "core \<Rightarrow> ref \<Rightarrow> bool" where
  "is_internal s w = (win_class (win_of s w) = Internal)"

definition is_static :: "core \<Rightarrow> ref \<Rightarrow> bool" where
  "is_static s w = (win_class (win_of s w) \<in> {Static, LayerStatic, XStatic})"

text \<open>Modelled from the spec: \<open>belongs_to_client\<close> is a method of the window classes,
  which are not among the sources; the spec gives every window a client-ownership tag
  and lets only surfaces owned by the exclusive client receive focus.\<close>

definition belongs_to_client :: "core \<Rightarrow> ref \<Rightarrow> ref \<Rightarrow> bool" where
  "belongs_to_client s w c = (win_client (win_of s w) = Some c)"

subsection \<open>\<open>focus_window\<close>\<close>




subsection \<open>\<open>_focus_pointer\<close>\<close>

text \<open>The branch for an internal window under the pointer.\<close>

definition focus_pointer_internal :: "core \<Rightarrow> ref \<Rightarrow> int \<Rightarrow> int \<Rightarrow> nat option \<Rightarrow> core" where
  "focus_pointer_internal s w cx cy motion =
     (if hovered_window s = Some w then
        (if motion \<noteq> None
         then emit (Internal_process_pointer_motion w
                      (cx - win_x (win_of s w)) (cy - win_y (win_of s w))) s
         else s)
      else
        (let s1 =
           (case hovered_window s of
              None \<Rightarrow> s
            | Some h \<Rightarrow>
                if is_internal s h then
                  (if motion \<noteq> None
                   then emit (Internal_process_pointer_leave h
                                (cx - win_x (win_of s h)) (cy - win_y (win_of s h))) s
                   else s)
                else if pointer_focused_surface s \<noteq> None
                then pointer_notify_clear_focus (set_cursor_image ''left_ptr'' s)
                else s);
             s2 = emit (Internal_process_pointer_enter w cx cy) s1
         in s2\<lparr>hovered_window := Some w\<rparr>))"

text \<open>The branch for a client window under the pointer, on its surface or on its
  border.\<close>

definition focus_pointer_client ::
  "core \<Rightarrow> qtile \<Rightarrow> ref \<Rightarrow> ref option \<Rightarrow> real \<Rightarrow> real \<Rightarrow> nat option \<Rightarrow> core" where
  "focus_pointer_client s q w surface sx sy motion =
     (let s1 =
        (case surface of
           Some sf \<Rightarrow>
             (let t = pointer_notify_enter sf sx sy s
              in case motion of
                   Some time \<Rightarrow> emit (Pointer_notify_motion time sx sy) t
                 | None \<Rightarrow> t)
         | None \<Rightarrow>
             if pointer_focused_surface s \<noteq> None
             then pointer_notify_clear_focus (set_cursor_image ''left_ptr'' s)
             else s);
          s2 =
        (if current_window q \<noteq> Some w then
           (if is_static s w then
              (let t = (if hovered_window s1 \<noteq> Some w
                        then emit (Hook_fire ''client_mouse_enter'' (Some w)) s1 else s1)
               in if motion \<noteq> None \<and> follow_mouse_focus q
                  then emit (Qtile_focus_screen (win_screen (win_of s w)) False) t else t)
            else
              (let t = emit (Hook_fire ''client_mouse_enter'' (Some w)) s1 in
               if motion \<noteq> None \<and> follow_mouse_focus q then
                 (case win_group (win_of s w) of
                    None \<Rightarrow> t
                  | Some g \<Rightarrow>
                      (let t1 = (if group_current_window (group_of q g) \<noteq> Some w
                                 then emit (Group_focus g w False) t else t)
                       in case group_screen (group_of q g) of
                            None \<Rightarrow> t1
                          | Some sc \<Rightarrow>
                              if current_screen q \<noteq> sc
                              then emit (Qtile_focus_screen sc False) t1 else t1))
               else t))
         else s1)
      in s2\<lparr>hovered_window := Some w\<rparr>)"

text \<open>The branch for no window under the pointer.\<close>

definition focus_pointer_nothing :: "core \<Rightarrow> int \<Rightarrow> int \<Rightarrow> core" where
  "focus_pointer_nothing s cx cy =
     (case hovered_window s of
        None \<Rightarrow> s
      | Some h \<Rightarrow>
          (if is_internal s h
           then emit (Internal_process_pointer_leave h
                        (cx - win_x (win_of s h)) (cy - win_y (win_of s h))) s
           else pointer_notify_clear_focus (set_cursor_image ''left_ptr'' s))
          \<lparr>hovered_window := None\<rparr>)"

definition focus_pointer :: "core \<Rightarrow> int \<Rightarrow> int \<Rightarrow> nat option \<Rightarrow> error + core" where
  "focus_pointer s cx cy motion =
     (case qtile s of
        None \<Rightarrow> Inl AssertionError
      | Some q \<Rightarrow>
          (case under_pointer s of
             Inl e \<Rightarrow> Inl e
           | Inr None \<Rightarrow> Inr (focus_pointer_nothing s cx cy)
           | Inr (Some (w, surface, sx, sy)) \<Rightarrow>
               if exclusive_client s \<noteq> None
                  \<and> (is_internal s w \<or> \<not> belongs_to_client s w (the (exclusive_client s)))
               then
                 Inr (if hovered_window s \<noteq> Some w
                      then (pointer_notify_clear_focus (set_cursor_image ''left_ptr'' s))
                             \<lparr>hovered_window := Some w\<rparr>
                      else s)
               else if is_internal s w then Inr (focus_pointer_internal s w cx cy motion)
               else Inr (focus_pointer_client s q w surface sx sy motion)))"

subsection \<open>Pointer constraints\<close>

text \<open>Modelled from the spec: \<open>PointerConstraint.enable\<close> and \<open>.disable\<close> belong to
  libqtile/backend/wayland/window.py, which is not among the sources.  By the spec a
  disabled constraint is no longer active and an enabled one becomes the active
  constraint; \<open>activated_constraints\<close> is the set of constraints that have been told
  they are active and not yet that they are inactive.\<close>

definition constraint_enable :: "ref \<Rightarrow> core \<Rightarrow> core" where
  "constraint_enable c s =
     emit (Constraint_send_activated c)
       (s\<lparr>active_pointer_constraint := Some c,
          activated_constraints := insert c (activated_constraints s)\<rparr>)"

definition constraint_disable :: "ref \<Rightarrow> core \<Rightarrow> core" where
  "constraint_disable c s =
     emit (Constraint_send_deactivated c)
       (s\<lparr>active_pointer_constraint := None,
          activated_constraints := activated_constraints s - {c}\<rparr>)"

text \<open>\<open>_on_new_pointer_constraint\<close>, as the list of the states after each of its
  statements that changes the state; the handler's result is the last of them.\<close>

definition on_new_pointer_constraint_steps :: "core \<Rightarrow> ref \<Rightarrow> core list" where
  "on_new_pointer_constraint_steps s c =
     (let s1 = s\<lparr>pointer_constraints := insert c (pointer_constraints s)\<rparr> in
      if pointer_focused_surface s1 = Some (pc_surface (constraint_of s1 c)) then
        (case active_pointer_constraint s1 of
           Some a \<Rightarrow>
             (let s2 = constraint_disable a s1 in [s1, s2, constraint_enable c s2])
         | None \<Rightarrow> [s1, constraint_enable c s1])
      else [s1])"

definition on_new_pointer_constraint :: "core \<Rightarrow> ref \<Rightarrow> core" where
  "on_new_pointer_constraint s c = last (on_new_pointer_constraint_steps s c)"

subsection \<open>Buttons and scrolling\<close>

definition process_cursor_button :: "core \<Rightarrow> int \<Rightarrow> bool \<Rightarrow> error + core \<times> bool" where
  "process_cursor_button s button pressed =
     (case qtile s of
        None \<Rightarrow> Inl AssertionError
      | Some q \<Rightarrow>
          if pressed then
            (let handled = button_click_handled q button (keyboard_modifier s)
                             (py_int (cursor_x s)) (py_int (cursor_y s));
                 s1 = emit (Qtile_process_button_click button (keyboard_modifier s)
                              (py_int (cursor_x s)) (py_int (cursor_y s))) s;
                 s2 = (case hovered_window s1 of
                         None \<Rightarrow> s1
                       | Some h \<Rightarrow>
                           if is_internal s1 h
                           then emit (Internal_process_button_click h
                                        (py_int (cursor_x s1 - of_int (win_x (win_of s1 h))))
                                        (py_int (cursor_y s1 - of_int (win_y (win_of s1 h))))
                                        button) s1
                           else s1)
             in Inr (s2, handled))
          else
            (let handled = button_release_handled q button (keyboard_modifier s);
                 s1 = emit (Qtile_process_button_release button (keyboard_modifier s)) s;
                 s2 = (case hovered_window s1 of
                         None \<Rightarrow> s1
                       | Some h \<Rightarrow>
                           if is_internal s1 h
                           then emit (Internal_process_button_release h
                                        (py_int (cursor_x s1 - of_int (win_x (win_of s1 h))))
                                        (py_int (cursor_y s1 - of_int (win_y (win_of s1 h))))
                                        button) s1
                           else s1)
             in Inr (s2, handled)))"

definition axis_button :: "PointerEventAxis \<Rightarrow> int" where
  "axis_button event =
     (if ax_orientation event = VERTICAL
      then (if 0 < ax_delta event then 5 else 4)
      else (if 0 < ax_delta event then 7 else 6))"

definition on_cursor_axis :: "core \<Rightarrow> PointerEventAxis \<Rightarrow> error + core" where
  "on_cursor_axis s event =
     (case (if ax_delta event \<noteq> 0 \<and> exclusive_client s = None
            then process_cursor_button s (axis_button event) True
            else Inr (s, False)) of
        Inl e \<Rightarrow> Inl e
      | Inr (s1, handled) \<Rightarrow>
          Inr (if \<not> handled
               then emit (Pointer_notify_axis (ax_time_msec event) (ax_orientation event)
                            (ax_delta event) (ax_delta_discrete event) (ax_source event)) s1
               else s1))"

subsection \<open>Pointer motion\<close>

definition process_cursor_motion :: "core \<Rightarrow> nat \<Rightarrow> real \<Rightarrow> real \<Rightarrow> error + core" where
  "process_cursor_motion s time_msec cx cy =
     (case qtile s of
        None \<Rightarrow> Inl AssertionError
      | Some q \<Rightarrow>
          (let cx_int = py_int cx;
               cy_int = py_int cy;
               s1 = (if exclusive_client s = None
                     then emit (Qtile_process_button_motion cx_int cy_int) s else s);
               r2 = (if 1 < length (outputs s1) then
                       (case layout_output_at s1 cx cy of
                          None \<Rightarrow> Inr s1
                        | Some out \<Rightarrow>
                            if current_output s1 \<noteq> Some out
                            then stack_windows (s1\<lparr>current_output := Some out\<rparr>) None
                            else Inr s1)
                     else Inr s1)
           in case r2 of
                Inl e \<Rightarrow> Inl e
              | Inr s2 \<Rightarrow>
                  (let s3 = (if live_dnd s2 then emit (Dnd_position cx cy) s2 else s2)
                   in focus_pointer s3 cx_int cy_int (Some time_msec))))"

text \<open>\<open>cursor.move\<close> adds the delta to the cursor position; the layout keeps the
  cursor inside the outputs, which is the function \<open>cursor_closest\<close>.\<close>

definition cursor_move :: "real \<Rightarrow> real \<Rightarrow> core \<Rightarrow> core" where
  "cursor_move dx dy s =
     (case cursor_closest s (cursor_x s + dx) (cursor_y s + dy) of
        (x, y) \<Rightarrow> (emit (Cursor_move dx dy) s)\<lparr>cursor_x := x, cursor_y := y\<rparr>)"

definition on_cursor_motion :: "core \<Rightarrow> PointerEventMotion \<Rightarrow> error + core" where
  "on_cursor_motion s event =
     (if qtile s = None then Inl AssertionError
      else
        (let s1 = emit Idle_notify_activity s;
             dx = mo_delta_x event;
             dy = mo_delta_y event;
             s2 = emit (Send_relative_motion (mo_time_msec event * 1000) dx dy
                          (mo_unaccel_delta_x event) (mo_unaccel_delta_y event)) s1
         in if (case active_pointer_constraint s2 of
                  None \<Rightarrow> False
                | Some a \<Rightarrow>
                    \<not> rect_contains_point (constraint_of s2 a) (cursor_x s2 + dx) (cursor_y s2 + dy))
            then Inr s2
            else
              (let s3 = cursor_move dx dy s2
               in process_cursor_motion s3 (mo_time_msec event) (cursor_x s3) (cursor_y s3))))"

subsection \<open>Example states\<close>

text \<open>The state right after \<open>__init__\<close> (nothing mapped, no outputs, no
  manager attached yet) and the default objects the examples below are built from.\<close>

definition win0 :: win where
  "win0 = \<lparr>win_class = Window, win_x = 0, win_y = 0, win_width = 100, win_height = 100,
     borderwidth = 0, win_client = None, win_surface = 0, win_screen = 0, win_group = None,
     ftm_handle = False, keyboard_interactive = False, override_redirect = False,
     or_surface_wants_focus = False, icccm_input_none = False\<rparr>"

definition output_state0 :: output_state where
  "output_state0 = \<lparr>os_enabled = True, os_mode = NoMode, os_transform = 0, os_scale = 1\<rparr>"

definition output0 :: Output where
  "output0 = \<lparr>layers = (\<lambda>l. []),
     current_state = output_state0, pending_state = output_state0\<rparr>"

definition qtile0 :: qtile where
  "qtile0 = \<lparr>windows_map = [], current_window = None, current_screen = 0,
     follow_mouse_focus = False,
     group_of = (\<lambda>g. \<lparr>group_current_window = None, group_screen = None\<rparr>),
     button_click_handled = (\<lambda>b m x y. False),
     button_release_handled = (\<lambda>b m. False)\<rparr>"

definition core0 :: core where
  "core0 = \<lparr>qtile = None, win_of = (\<lambda>r. win0), output_of = (\<lambda>r. output0),
     constraint_of = (\<lambda>r. \<lparr>pc_surface = 0, pc_window = None,
                              rect_contains_point = (\<lambda>x y. False)\<rparr>),
     surface_at = (\<lambda>r x y. None), surface_role = (\<lambda>r. OtherRole),
     surface_has_data = (\<lambda>r. False), backend_test = (\<lambda>r st. True),
     layout_output_at = (\<lambda>x y. None), cursor_closest = (\<lambda>x y. (x, y)),
     hovered_window = None, focused_internal = None,
     mapped_windows = [], stacked_windows = [], current_output = None, outputs = [],
     output_layout = [], exclusive_client = None, pointer_constraints = {},
     active_pointer_constraint = None, activated_constraints = {}, live_dnd = False,
     seat_destroyed = False, seat_keyboard_null = False, keyboard_modifier = 0,
     pointer_focused_surface = None, keyboard_focused_surface = None,
     cursor_x = 0, cursor_y = 0, effects = []\<rparr>"

definition overlay_scene :: core where
  "overlay_scene = core0\<lparr>qtile := Some qtile0,
     win_of := (\<lambda>r. if r = 2 then win0\<lparr>win_class := LayerStatic, win_surface := 20\<rparr>
                      else win0\<lparr>win_surface := 10\<rparr>),
     output_of := (\<lambda>r. output0\<lparr>layers := (\<lambda>l. if l = OVERLAY then [2] else [])\<rparr>),
     surface_at := (\<lambda>r x y. if 0 \<le> x \<and> x \<le> 100 \<and> 0 \<le> y \<and> y \<le> 100
                             then Some (if r = 2 then 20 else 10, x, y) else None),
     mapped_windows := [1], current_output := Some 0, outputs := [0],
     cursor_x := 5, cursor_y := 7\<rparr>"

definition moved_head :: head_state where
  "moved_head = \<lparr>hs_output = 0, hs_enabled = True, hs_mode = None,
     hs_custom_mode = (800, 600, 60), hs_x = 100, hs_y = 0, hs_transform = 0, hs_scale = 1\<rparr>"

definition rejecting_backend :: core where
  "rejecting_backend = core0\<lparr>backend_test := (\<lambda>out st. False), outputs := [0],
     output_layout := [(0, (0, 0))], current_output := Some 0\<rparr>"

definition exclusive_scene :: core where
  "exclusive_scene = core0\<lparr>qtile := Some qtile0,
     win_of := (\<lambda>r. if r = 1 then win0\<lparr>win_client := Some 8, win_surface := 10\<rparr>
                      else win0\<lparr>win_client := Some 7, win_surface := 20, win_x := 200\<rparr>),
     surface_at := (\<lambda>r x y. if 0 \<le> x \<and> x \<le> 100 \<and> 0 \<le> y \<and> y \<le> 100
                             then Some (if r = 1 then 10 else 20, x, y) else None),
     mapped_windows := [1, 2], stacked_windows := [1, 2],
     exclusive_client := Some 7,
     pointer_focused_surface := Some 10, keyboard_focused_surface := Some 10,
     cursor_x := 5, cursor_y := 7\<rparr>"

definition constrained_scene :: core where
  "constrained_scene = core0\<lparr>qtile := Some qtile0,
     constraint_of := (\<lambda>r. \<lparr>pc_surface = 10, pc_window = Some 1,
        rect_contains_point = (\<lambda>x y. 0 \<le> x \<and> x < 10 \<and> 0 \<le> y \<and> y < 10)\<rparr>),
     pointer_constraints := {1}, active_pointer_constraint := Some 1,
     activated_constraints := {1}, pointer_focused_surface := Some 10,
     cursor_x := 5, cursor_y := 5\<rparr>"

section \<open>Verified properties\<close>

subsection \<open>Window identifiers\<close>

lemma fold_max_ge: "(k::int) \<le> fold max ks k"
  by (induction ks arbitrary: k) (auto intro: order_trans [OF max.cobounded2])

lemma fold_max_upper: "x \<in> set ks \<Longrightarrow> (x::int) \<le> fold max ks k"
proof (induction ks arbitrary: k)
  case Nil
  then show ?case by simp
next
  case (Cons a ks)
  show ?case
  proof (cases "x = a")
    case True
    have "a \<le> max a k" by simp
    also have "\<dots> \<le> fold max ks (max a k)" by (rule fold_max_ge)
    finally show ?thesis using True by simp
  next
    case False
    with Cons.prems have "x \<in> set ks" by simp
    then show ?thesis using Cons.IH by simp
  qed
qed

lemma fold_max_eq_Max: "fold max ks (k::int) = Max (set (k # ks))"
  by (rule Max.set_eq_fold [symmetric])

lemma py_max_default_upper: "x \<in> set ks \<Longrightarrow> x \<le> py_max_default ks d"
  by (cases ks) (auto simp: py_max_default_def fold_max_ge fold_max_upper)

text \<open>
  Claim C10.  When the manager is attached, \<open>new_wid\<close> returns an identifier that is
  strictly greater than every key of the manager's window map: one more than the largest
  key, and 1 for the empty map.  So the new identifier is no key of the map.
\<close>

theorem new_wid_fresh:
  assumes "qtile s = Some q"
  shows "\<exists>n. new_wid s = Inr n
           \<and> (\<forall>k \<in> set (map fst (windows_map q)). k < n)
           \<and> n = (if windows_map q = [] then 1
                  else Max (set (map fst (windows_map q))) + 1)"
proof -
  let ?ks = "map fst (windows_map q)"
  have eq: "new_wid s = Inr (py_max_default ?ks 0 + 1)"
    using assms by (simp add: new_wid_def)
  have up: "\<forall>k \<in> set ?ks. k < py_max_default ?ks 0 + 1"
    using py_max_default_upper [of _ ?ks 0] by force
  have val: "py_max_default ?ks 0 + 1 =
      (if windows_map q = [] then 1 else Max (set ?ks) + 1)"
  proof (cases "windows_map q")
    case Nil
    then show ?thesis by (simp add: py_max_default_def)
  next
    case (Cons a as)
    then have "py_max_default ?ks 0 = fold max (map fst as) (fst a)"
      by (simp add: py_max_default_def)
    also have "\<dots> = Max (set (fst a # map fst as))"
      by (rule fold_max_eq_Max)
    finally show ?thesis using Cons by simp
  qed
  show ?thesis using eq up val by simp
qed

theorem new_wid_fresh_witness:
  "qtile (core0\<lparr>qtile := Some (qtile0\<lparr>windows_map := [(1, 10), (5, 11), (3, 12)]\<rparr>)\<rparr>)
     = Some (qtile0\<lparr>windows_map := [(1, 10), (5, 11), (3, 12)]\<rparr>)
   \<and> new_wid (core0\<lparr>qtile := Some (qtile0\<lparr>windows_map := [(1, 10), (5, 11), (3, 12)]\<rparr>)\<rparr>)
     = Inr 6"
proof -
  let ?q = "qtile0\<lparr>windows_map := [(1, 10), (5, 11), (3, 12)]\<rparr>"
  have h: "qtile (core0\<lparr>qtile := Some ?q\<rparr>) = Some ?q" by simp
  show ?thesis using new_wid_fresh [OF h] by simp
qed

subsection \<open>Hit testing\<close>

lemma hit_window_iff:
  "hit_window s cx cy r \<noteq> None \<longleftrightarrow> contains_point_spec s cx cy r"
  by (auto simp: hit_window_def contains_point_spec_def Let_def split: option.splits)

lemma hit_window_None:
  "hit_window s cx cy r = None \<longleftrightarrow> \<not> contains_point_spec s cx cy r"
  using hit_window_iff [of s cx cy r] by blast

lemma hit_window_ref:
  "hit_window s cx cy r = Some (w, sf, sx, sy) \<Longrightarrow> w = r"
  by (auto simp: hit_window_def Let_def split: option.splits if_splits)

lemma hit_window_internal:
  "win_class (win_of s r) = Internal \<Longrightarrow> hit_window s cx cy r = Some f \<Longrightarrow> f = (r, None, 0, 0)"
  by (auto simp: hit_window_def Let_def split: option.splits if_splits)

lemma loop_None:
  "under_pointer_loop s cx cy rs = None \<longleftrightarrow> (\<forall>r \<in> set rs. hit_window s cx cy r = None)"
  by (induction rs) (auto split: option.splits)

lemma loop_Some:
  "under_pointer_loop s cx cy rs = Some f \<Longrightarrow>
     \<exists>i < length rs. hit_window s cx cy (rs ! i) = Some f
        \<and> (\<forall>j < i. hit_window s cx cy (rs ! j) = None)"
proof (induction rs)
  case Nil
  then show ?case by simp
next
  case (Cons r rs)
  show ?case
  proof (cases "hit_window s cx cy r")
    case None
    with Cons.prems have "under_pointer_loop s cx cy rs = Some f" by simp
    from Cons.IH [OF this] obtain i where i: "i < length rs"
      "hit_window s cx cy (rs ! i) = Some f" "\<forall>j < i. hit_window s cx cy (rs ! j) = None"
      by blast
    have "\<forall>j < Suc i. hit_window s cx cy ((r # rs) ! j) = None"
      using i(3) None by (auto simp: nth_Cons split: nat.splits)
    with i(1,2) show ?thesis by (intro exI [of _ "Suc i"]) simp
  next
    case (Some g)
    with Cons.prems have "g = f" by simp
    with Some show ?thesis by (intro exI [of _ 0]) simp
  qed
qed

lemma loop_rev_Some:
  assumes "under_pointer_loop s cx cy (rev ws) = Some f"
  shows "\<exists>i < length ws. hit_window s cx cy (ws ! i) = Some f
        \<and> (\<forall>j. i < j \<and> j < length ws \<longrightarrow> hit_window s cx cy (ws ! j) = None)"
proof -
  from loop_Some [OF assms] obtain k where k: "k < length ws"
    "hit_window s cx cy (rev ws ! k) = Some f"
    "\<forall>j < k. hit_window s cx cy (rev ws ! j) = None"
    by auto
  let ?i = "length ws - Suc k"
  have i: "?i < length ws" using k(1) by simp
  have hi: "hit_window s cx cy (ws ! ?i) = Some f"
    using k(1,2) by (simp add: rev_nth)
  have above: "hit_window s cx cy (ws ! j) = None" if "?i < j" "j < length ws" for j
  proof -
    let ?j' = "length ws - Suc j"
    have "?j' < k" using that k(1) by arith
    then have "hit_window s cx cy (rev ws ! ?j') = None" using k(3) by blast
    moreover have "rev ws ! ?j' = ws ! j"
      using that by (simp add: rev_nth)
    ultimately show ?thesis by simp
  qed
  show ?thesis using i hi above by blast
qed


text \<open>
  Claim C1.  With the manager attached, \<open>_under_pointer\<close> returns a result for every
  state and cursor position.  The result is none exactly when no window of
  \<open>stacked_windows\<close> contains the cursor position, where an internal window contains a
  point of its bounding box and any other window contains a point that its surface-level
  hit test accepts or, with a nonzero border width, a point of the box enlarged by twice
  the border width.  A returned window contains the point, no window above it in
  \<open>stacked_windows\<close> does, and an internal window comes with no surface.  After
  \<open>stack_windows\<close> with a current output, an overlay-layer window containing the point
  makes the result an overlay-layer window, whatever regular window lies below.
\<close>

theorem under_pointer_topmost:
  assumes "qtile s = Some q"
  shows "\<exists>res. under_pointer s = Inr res
     \<and> (res = None \<longleftrightarrow>
          (\<forall>w \<in> set (stacked_windows s). \<not> contains_point_spec s (cursor_x s) (cursor_y s) w))
     \<and> (\<forall>w sf sx sy. res = Some (w, sf, sx, sy) \<longrightarrow>
          (\<exists>i < length (stacked_windows s). stacked_windows s ! i = w
              \<and> contains_point_spec s (cursor_x s) (cursor_y s) w
              \<and> (win_class (win_of s w) = Internal \<longrightarrow> sf = None)
              \<and> (\<forall>j. i < j \<and> j < length (stacked_windows s) \<longrightarrow>
                    \<not> contains_point_spec s (cursor_x s) (cursor_y s) (stacked_windows s ! j))))
     \<and> (\<forall>s0 restack out ov.
            stack_windows s0 restack = Inr s \<and> current_output s0 = Some out
            \<and> ov \<in> set (layers (output_of s0 out) OVERLAY)
            \<and> contains_point_spec s (cursor_x s) (cursor_y s) ov \<longrightarrow>
            (\<exists>w sf sx sy. res = Some (w, sf, sx, sy)
                \<and> w \<in> set (layers (output_of s0 out) OVERLAY)))"
proof -
  let ?cx = "cursor_x s" and ?cy = "cursor_y s" and ?ws = "stacked_windows s"
  let ?res = "under_pointer_loop s ?cx ?cy (rev ?ws)"
  have run: "under_pointer s = Inr ?res"
    using assms by (simp add: under_pointer_def)
  have none: "?res = None \<longleftrightarrow> (\<forall>w \<in> set ?ws. \<not> contains_point_spec s ?cx ?cy w)"
    by (simp add: loop_None hit_window_None)
  have top: "\<exists>i < length ?ws. ?ws ! i = w
              \<and> contains_point_spec s ?cx ?cy w
              \<and> (win_class (win_of s w) = Internal \<longrightarrow> sf = None)
              \<and> (\<forall>j. i < j \<and> j < length ?ws \<longrightarrow> \<not> contains_point_spec s ?cx ?cy (?ws ! j))"
    if "?res = Some (w, sf, sx, sy)" for w sf sx sy
  proof -
    from loop_rev_Some [OF that] obtain i where i: "i < length ?ws"
      "hit_window s ?cx ?cy (?ws ! i) = Some (w, sf, sx, sy)"
      "\<forall>j. i < j \<and> j < length ?ws \<longrightarrow> hit_window s ?cx ?cy (?ws ! j) = None"
      by blast
    have w: "?ws ! i = w" using hit_window_ref [OF i(2)] by simp
    have c: "contains_point_spec s ?cx ?cy w"
      using i(2) w hit_window_iff [of s ?cx ?cy w] by simp
    have int: "win_class (win_of s w) = Internal \<longrightarrow> sf = None"
      using hit_window_internal [of s w ?cx ?cy "(w, sf, sx, sy)"] i(2) w by auto
    have ab: "\<forall>j. i < j \<and> j < length ?ws \<longrightarrow> \<not> contains_point_spec s ?cx ?cy (?ws ! j)"
      using i(3) by (simp add: hit_window_None)
    show ?thesis using i(1) w c int ab by blast
  qed
  have ovl: "\<exists>w sf sx sy. ?res = Some (w, sf, sx, sy)
                \<and> w \<in> set (layers (output_of s0 out) OVERLAY)"
    if st: "stack_windows s0 restack = Inr s" and co: "current_output s0 = Some out"
      and ov: "ov \<in> set (layers (output_of s0 out) OVERLAY)"
      and cv: "contains_point_spec s ?cx ?cy ov" for s0 restack out ov
  proof -
    let ?ovl = "layers (output_of s0 out) OVERLAY"
    from st co obtain pre where pre: "?ws = pre @ ?ovl"
      by (auto simp: stack_windows_def Let_def split: option.splits if_splits sum.splits)
    from ov obtain k where k: "k < length ?ovl" "?ovl ! k = ov"
      by (auto simp: in_set_conv_nth)
    have ovin: "ov \<in> set ?ws" using pre ov by simp
    with cv none have "?res \<noteq> None" by blast
    then obtain w sf sx sy where r: "?res = Some (w, sf, sx, sy)"
      by (cases ?res) auto
    from top [OF r] obtain i where i: "i < length ?ws" "?ws ! i = w"
      "\<forall>j. i < j \<and> j < length ?ws \<longrightarrow> \<not> contains_point_spec s ?cx ?cy (?ws ! j)"
      by blast
    have "\<not> i < length pre + k"
    proof
      assume "i < length pre + k"
      moreover have "length pre + k < length ?ws" using pre k(1) by simp
      moreover have "?ws ! (length pre + k) = ov" using pre k by (simp add: nth_append)
      ultimately show False using i(3) cv by auto
    qed
    then have "length pre \<le> i" by simp
    then have "w \<in> set ?ovl"
      using i(1,2) pre by (auto simp: nth_append)
    with r show ?thesis by blast
  qed
  show ?thesis using run none top ovl by (intro exI [of _ ?res]) blast
qed

theorem under_pointer_topmost_witness:
  "qtile overlay_scene = Some qtile0
   \<and> stack_windows overlay_scene None = Inr (overlay_scene\<lparr>stacked_windows := [1, 2]\<rparr>)
   \<and> under_pointer (overlay_scene\<lparr>stacked_windows := [1, 2]\<rparr>) = Inr (Some (2, Some 20, 5, 7))"
proof -
  have h: "qtile (overlay_scene\<lparr>stacked_windows := [1, 2]\<rparr>) = Some qtile0"
    by (simp add: overlay_scene_def)
  show ?thesis
    using under_pointer_topmost [OF h]
    by (simp add: overlay_scene_def core0_def stack_windows_def under_pointer_def
        hit_window_def win0_def output0_def Let_def)
qed

subsection \<open>Stacking\<close>

lemma filter_remove1_other:
  "filter (\<lambda>v. v \<noteq> w) (remove1 w xs) = filter (\<lambda>v. v \<noteq> w) xs"
  by (induction xs) auto

text \<open>
  Claim C6, as amended.  When \<open>stack_windows\<close> is called with no restack target or with
  one that is in \<open>mapped_windows\<close>, it returns, and \<open>stacked_windows\<close> is then
  background layer, bottom layer, \<open>mapped_windows\<close>, top layer and overlay layer of the
  current output in this order, or \<open>mapped_windows\<close> alone without a current output.
  A restack target has first been moved to the end of \<open>mapped_windows\<close>: the other
  windows keep their relative order and the multiset of windows is unchanged.  With a
  restack target that is not in \<open>mapped_windows\<close> the call raises \<open>ValueError\<close>: it
  yields no new state, so nothing is set.
\<close>

theorem stack_windows_order:
  "(restack = None \<or> (\<exists>w. restack = Some w \<and> w \<in> set (mapped_windows s)) \<longrightarrow>
     (\<exists>s'. stack_windows s restack = Inr s'
       \<and> stacked_windows s' =
           (case current_output s of
              Some out \<Rightarrow>
                layers (output_of s out) BACKGROUND @ layers (output_of s out) BOTTOM
                @ mapped_windows s'
                @ layers (output_of s out) TOP @ layers (output_of s out) OVERLAY
            | None \<Rightarrow> mapped_windows s')
       \<and> (restack = None \<longrightarrow> mapped_windows s' = mapped_windows s)
       \<and> (\<forall>w. restack = Some w \<longrightarrow>
             mapped_windows s' = remove1 w (mapped_windows s) @ [w]
             \<and> last (mapped_windows s') = w
             \<and> filter (\<lambda>v. v \<noteq> w) (mapped_windows s') = filter (\<lambda>v. v \<noteq> w) (mapped_windows s)
             \<and> mset (mapped_windows s') = mset (mapped_windows s))
       \<and> current_output s' = current_output s \<and> effects s' = effects s))
   \<and> (\<forall>w. restack = Some w \<and> w \<notin> set (mapped_windows s) \<longrightarrow>
         stack_windows s restack = Inl ValueError)"
proof (cases restack)
  case None
  then show ?thesis
    by (cases "current_output s") (simp_all add: stack_windows_def Let_def)
next
  case (Some w)
  show ?thesis
  proof (cases "w \<in> set (mapped_windows s)")
    case True
    have m: "mset (remove1 w (mapped_windows s) @ [w]) = mset (mapped_windows s)"
      using True by simp
    show ?thesis
      using Some True m
      by (cases "current_output s")
        (simp_all add: stack_windows_def Let_def filter_remove1_other
          del: mset_append mset_remove1)
  next
    case False
    with Some show ?thesis by (simp add: stack_windows_def)
  qed
qed

theorem stack_windows_order_witness:
  "(Some (1::nat) = None \<or> (\<exists>w. Some 1 = Some w \<and> w \<in> set (mapped_windows (overlay_scene\<lparr>mapped_windows := [1, 3, 4]\<rparr>))))
   \<and> stack_windows (overlay_scene\<lparr>mapped_windows := [1, 3, 4]\<rparr>) (Some 1)
      = Inr (overlay_scene\<lparr>mapped_windows := [3, 4, 1], stacked_windows := [3, 4, 1, 2]\<rparr>)
   \<and> (7::nat) \<notin> set (mapped_windows (overlay_scene\<lparr>mapped_windows := [1, 3, 4]\<rparr>))
   \<and> stack_windows (overlay_scene\<lparr>mapped_windows := [1, 3, 4]\<rparr>) (Some 7) = Inl ValueError"
proof -
  let ?s = "overlay_scene\<lparr>mapped_windows := [1, 3, 4]\<rparr>"
  have h: "Some (1::nat) = None \<or> (\<exists>w. Some 1 = Some w \<and> w \<in> set (mapped_windows ?s))"
    by simp
  have a: "(7::nat) \<notin> set (mapped_windows ?s)"
    by simp
  have absent: "stack_windows ?s (Some 7) = Inl ValueError"
    using stack_windows_order [of "Some 7" ?s] a by blast
  have present: "stack_windows ?s (Some 1)
      = Inr (overlay_scene\<lparr>mapped_windows := [3, 4, 1], stacked_windows := [3, 4, 1, 2]\<rparr>)"
    using stack_windows_order [of "Some 1" ?s] h
    by (simp add: stack_windows_def Let_def overlay_scene_def core0_def output0_def)
  show ?thesis using h a absent present by blast
qed

text \<open>Claim C6 as first stated fails at a restack target that is not in
  \<open>mapped_windows\<close>: \<open>list.remove\<close> raises and \<open>stacked_windows\<close> is not set.\<close>

theorem stack_windows_absent_counterexample:
  "stack_windows (core0\<lparr>mapped_windows := [1]\<rparr>) (Some 2) = Inl ValueError"
  by (simp add: stack_windows_def)

subsection \<open>Outputs\<close>





text \<open>What a proposal that is not committed does keep: the current state of every
  output, and the pending state of every head's output is reset to the current one.\<close>

lemma configure_head_current:
  "current_state (output_of (configure_head h s) out) = current_state (output_of s out)"
  by (simp add: configure_head_def set_pending_def output_layout_add_def
      output_layout_remove_def Let_def split: option.splits prod.splits)

lemma test_heads_current:
  "current_state (output_of (fst (test_heads s hs)) out) = current_state (output_of s out)"
  by (induction hs arbitrary: s) (simp_all add: Let_def configure_head_current)

lemma finish_heads_rollback_current:
  "current_state (output_of (finish_heads False s hs) out) = current_state (output_of s out)"
  by (induction hs arbitrary: s) (simp_all add: wlr_output_rollback_def)

lemma finish_heads_rollback_pending:
  "h \<in> set hs \<Longrightarrow>
   pending_state (output_of (finish_heads False s hs) (hs_output h))
     = current_state (output_of s (hs_output h))"
proof (induction hs arbitrary: s)
  case Nil
  then show ?case by simp
next
  case (Cons a hs)
  let ?s1 = "wlr_output_rollback (hs_output a) s"
  have cur: "current_state (output_of ?s1 (hs_output h)) = current_state (output_of s (hs_output h))"
    by (simp add: wlr_output_rollback_def)
  show ?case
  proof (cases "h \<in> set hs")
    case True
    from Cons.IH [OF True, of ?s1] cur show ?thesis by simp
  next
    case False
    with Cons.prems have eq: "h = a" by simp
    have keep: "pending_state (output_of (finish_heads False t hs) out)
        = current_state (output_of t out)"
      if "pending_state (output_of t out) = current_state (output_of t out)" for t out
      using that by (induction hs arbitrary: t) (simp_all add: wlr_output_rollback_def)
    have "pending_state (output_of ?s1 (hs_output a)) = current_state (output_of ?s1 (hs_output a))"
      by (simp add: wlr_output_rollback_def)
    from keep [OF this] show ?thesis using eq cur by simp
  qed
qed

lemma finish_heads_frame:
  "output_layout (finish_heads c s hs) = output_layout s
   \<and> effects (finish_heads c s hs) = effects s"
  by (induction hs arbitrary: s) (simp_all add: wlr_output_rollback_def wlr_output_commit_def)

lemma reconfigure_rejected_rolls_back:
  assumes "\<not> (snd (test_heads s heads) \<and> apply)"
  shows "current_state (output_of (output_manager_reconfigure s heads apply) out)
           = current_state (output_of s out)"
    and "h \<in> set heads \<Longrightarrow>
         pending_state (output_of (output_manager_reconfigure s heads apply) (hs_output h))
           = current_state (output_of s (hs_output h))"
    and "effects (output_manager_reconfigure s heads apply)
           = effects (fst (test_heads s heads))
             @ [if snd (test_heads s heads) then Config_send_succeeded else Config_send_failed,
                Config_destroy, Hook_fire ''screen_change'' None]"
proof -
  obtain s1 ok where t: "test_heads s heads = (s1, ok)" by (cases "test_heads s heads")
  from assms t have c: "\<not> ok \<or> \<not> apply" by simp
  have s1: "current_state (output_of s1 out') = current_state (output_of s out')" for out'
    using test_heads_current [of s heads out'] t by simp
  show "current_state (output_of (output_manager_reconfigure s heads apply) out)
           = current_state (output_of s out)"
    using t c s1 [of out]
    by (cases ok; cases "apply")
      (simp_all add: output_manager_reconfigure_def emit_def Let_def
        finish_heads_rollback_current)
  show "pending_state (output_of (output_manager_reconfigure s heads apply) (hs_output h))
           = current_state (output_of s (hs_output h))" if "h \<in> set heads"
    using t c s1 [of "hs_output h"] finish_heads_rollback_pending [OF that, of s1]
    by (cases ok; cases "apply")
      (simp_all add: output_manager_reconfigure_def emit_def Let_def)
  show "effects (output_manager_reconfigure s heads apply)
           = effects (fst (test_heads s heads))
             @ [if snd (test_heads s heads) then Config_send_succeeded else Config_send_failed,
                Config_destroy, Hook_fire ''screen_change'' None]"
    using t by (simp add: output_manager_reconfigure_def emit_def Let_def finish_heads_frame)
qed

text \<open>
  Claim C2 at a rejected proposal.  One head asks to enable output 0 at position
  \<open>(100, 0)\<close>; the output stands at \<open>(0, 0)\<close> and the backend rejects the test.
  The call reports the failure and rolls the output's pending state back, but the
  output has been moved in the layout and stays at \<open>(100, 0)\<close>.
\<close>

theorem reconfigure_rejected_moves_output:
  "output_layout rejecting_backend = [(0, (0, 0))]
   \<and> output_layout (output_manager_reconfigure rejecting_backend [moved_head] True)
       = [(0, (100, 0))]
   \<and> effects (output_manager_reconfigure rejecting_backend [moved_head] True)
       = [Config_send_failed, Config_destroy, Hook_fire ''screen_change'' None]
   \<and> current_state (output_of (output_manager_reconfigure rejecting_backend [moved_head] True) 0)
       = current_state (output_of rejecting_backend 0)
   \<and> pending_state (output_of (output_manager_reconfigure rejecting_backend [moved_head] True) 0)
       = current_state (output_of rejecting_backend 0)"
  by (simp add: output_manager_reconfigure_def configure_head_def set_pending_def
      wlr_output_enabled_def wlr_output_test_def wlr_output_rollback_def
      output_layout_add_def emit_def rejecting_backend_def moved_head_def core0_def
      output0_def output_state0_def Let_def)

subsection \<open>Exclusive-client mode\<close>




text \<open>
  Claim C4, as amended.  While an exclusive client is set and the window under the
  pointer is internal or not owned by that client, \<open>_focus_pointer\<close> issues no
  pointer-enter and no pointer-motion notification.  Unless that window is already the
  hovered window, it restores the default cursor image, clears the seat's pointer focus
  and records the window as hovered; when the window is already the hovered one, it
  changes nothing.
\<close>

theorem focus_pointer_exclusive:
  assumes "qtile s = Some q" and "exclusive_client s = Some c"
    and "under_pointer s = Inr (Some (w, surface, sx, sy))"
    and "is_internal s w \<or> \<not> belongs_to_client s w c"
  shows "\<exists>s'. focus_pointer s cx cy motion = Inr s'
     \<and> effects s' = effects s
         @ (if hovered_window s = Some w then []
            else [Set_cursor_image ''left_ptr'', Pointer_notify_clear_focus])
     \<and> (\<forall>sf x y. Pointer_notify_enter sf x y \<notin> set (drop (length (effects s)) (effects s')))
     \<and> (\<forall>t x y. Pointer_notify_motion t x y \<notin> set (drop (length (effects s)) (effects s')))
     \<and> (hovered_window s \<noteq> Some w \<longrightarrow>
           pointer_focused_surface s' = None \<and> hovered_window s' = Some w)
     \<and> (hovered_window s = Some w \<longrightarrow> s' = s)"
  using assms
  by (simp add: focus_pointer_def pointer_notify_clear_focus_def set_cursor_image_def emit_def)

theorem focus_pointer_exclusive_witness:
  "qtile exclusive_scene = Some qtile0
   \<and> exclusive_client exclusive_scene = Some 7
   \<and> under_pointer exclusive_scene = Inr (Some (1, Some 10, 5, 7))
   \<and> (is_internal exclusive_scene 1 \<or> \<not> belongs_to_client exclusive_scene 1 7)
   \<and> (\<exists>s'. focus_pointer exclusive_scene 5 7 (Some 0) = Inr s'
          \<and> effects s' = [Set_cursor_image ''left_ptr'', Pointer_notify_clear_focus]
          \<and> pointer_focused_surface s' = None \<and> hovered_window s' = Some 1)"
proof -
  have q: "qtile exclusive_scene = Some qtile0"
    by (simp add: exclusive_scene_def)
  have e: "exclusive_client exclusive_scene = Some 7"
    by (simp add: exclusive_scene_def)
  have u: "under_pointer exclusive_scene = Inr (Some (1, Some 10, 5, 7))"
    by (simp add: exclusive_scene_def under_pointer_def hit_window_def win0_def Let_def)
  have n: "is_internal exclusive_scene 1 \<or> \<not> belongs_to_client exclusive_scene 1 7"
    by (simp add: exclusive_scene_def belongs_to_client_def)
  have h: "hovered_window exclusive_scene \<noteq> Some 1" "effects exclusive_scene = []"
    by (simp_all add: exclusive_scene_def core0_def)
  from focus_pointer_exclusive [OF q e u n, of 5 7 "Some 0"] h
  have "\<exists>s'. focus_pointer exclusive_scene 5 7 (Some 0) = Inr s'
          \<and> effects s' = [Set_cursor_image ''left_ptr'', Pointer_notify_clear_focus]
          \<and> pointer_focused_surface s' = None \<and> hovered_window s' = Some 1"
    by auto
  with q e u n show ?thesis by blast
qed

text \<open>When the window under the pointer is already the hovered window, the pointer
  focus that a surface holds is not cleared.\<close>

theorem focus_pointer_hovered_counterexample:
  "exclusive_client (exclusive_scene\<lparr>hovered_window := Some 1\<rparr>) = Some 7
   \<and> under_pointer (exclusive_scene\<lparr>hovered_window := Some 1\<rparr>) = Inr (Some (1, Some 10, 5, 7))
   \<and> \<not> belongs_to_client (exclusive_scene\<lparr>hovered_window := Some 1\<rparr>) 1 7
   \<and> pointer_focused_surface (exclusive_scene\<lparr>hovered_window := Some 1\<rparr>) = Some 10
   \<and> focus_pointer (exclusive_scene\<lparr>hovered_window := Some 1\<rparr>) 5 7 (Some 0)
       = Inr (exclusive_scene\<lparr>hovered_window := Some 1\<rparr>)"
  by (simp add: focus_pointer_def under_pointer_def hit_window_def belongs_to_client_def
      is_internal_def exclusive_scene_def win0_def Let_def)

subsection \<open>Pointer constraints\<close>

text \<open>
  Claim C5.  From a state in which the only constraint that can be activated is the one
  the core records as active, every state that \<open>_on_new_pointer_constraint\<close> passes
  through has at most one activated constraint, and it is the recorded one.  When the new
  constraint's surface holds the pointer focus, the previously active constraint is
  deactivated first and the new one activated after it, and the new one is then the only
  active constraint; otherwise the active constraint is left alone.
\<close>

theorem new_pointer_constraint_exclusive:
  assumes "activated_constraints s \<subseteq> set_option (active_pointer_constraint s)"
  shows "(\<forall>t \<in> set (on_new_pointer_constraint_steps s c).
            card (activated_constraints t) \<le> 1
            \<and> activated_constraints t \<subseteq> set_option (active_pointer_constraint t))
     \<and> c \<in> pointer_constraints (on_new_pointer_constraint s c)
     \<and> (pointer_focused_surface s = Some (pc_surface (constraint_of s c)) \<longrightarrow>
           active_pointer_constraint (on_new_pointer_constraint s c) = Some c
           \<and> activated_constraints (on_new_pointer_constraint s c) = {c}
           \<and> effects (on_new_pointer_constraint s c) = effects s
               @ (case active_pointer_constraint s of
                    Some a \<Rightarrow> [Constraint_send_deactivated a]
                  | None \<Rightarrow> [])
               @ [Constraint_send_activated c])
     \<and> (pointer_focused_surface s \<noteq> Some (pc_surface (constraint_of s c)) \<longrightarrow>
           active_pointer_constraint (on_new_pointer_constraint s c) = active_pointer_constraint s
           \<and> activated_constraints (on_new_pointer_constraint s c) = activated_constraints s
           \<and> effects (on_new_pointer_constraint s c) = effects s)"
proof (cases "active_pointer_constraint s")
  case None
  with assms have "activated_constraints s = {}" by simp
  with None show ?thesis
    by (simp add: on_new_pointer_constraint_def on_new_pointer_constraint_steps_def
        constraint_enable_def emit_def Let_def)
next
  case (Some a)
  with assms have sub: "activated_constraints s \<subseteq> {a}" by simp
  then have fin: "finite (activated_constraints s)"
    by (rule finite_subset) simp
  have le: "card (activated_constraints s) \<le> 1"
    using card_mono [OF _ sub] by simp
  have emp: "activated_constraints s - {a} = {}" using sub by auto
  show ?thesis
    using Some le sub
    by (simp add: on_new_pointer_constraint_def on_new_pointer_constraint_steps_def
        constraint_enable_def constraint_disable_def emit_def Let_def emp)
qed

theorem new_pointer_constraint_exclusive_witness:
  "activated_constraints constrained_scene \<subseteq> set_option (active_pointer_constraint constrained_scene)
   \<and> pointer_focused_surface constrained_scene = Some (pc_surface (constraint_of constrained_scene 2))
   \<and> length (on_new_pointer_constraint_steps constrained_scene 2) = 3
   \<and> active_pointer_constraint (on_new_pointer_constraint constrained_scene 2) = Some 2
   \<and> activated_constraints (on_new_pointer_constraint constrained_scene 2) = {2}
   \<and> effects (on_new_pointer_constraint constrained_scene 2)
       = [Constraint_send_deactivated 1, Constraint_send_activated 2]"
proof -
  have h: "activated_constraints constrained_scene
      \<subseteq> set_option (active_pointer_constraint constrained_scene)"
    by (simp add: constrained_scene_def)
  have f: "pointer_focused_surface constrained_scene
      = Some (pc_surface (constraint_of constrained_scene 2))"
    by (simp add: constrained_scene_def)
  have a: "active_pointer_constraint constrained_scene = Some 1"
    "effects constrained_scene = []"
    by (simp_all add: constrained_scene_def core0_def)
  have l: "length (on_new_pointer_constraint_steps constrained_scene 2) = 3"
    by (simp add: on_new_pointer_constraint_steps_def constrained_scene_def Let_def)
  show ?thesis
    using new_pointer_constraint_exclusive [OF h, of 2] h f a l by simp
qed

text \<open>
  Claim C7.  When a constraint is active and its rectangle does not contain the cursor
  position plus the event's delta, \<open>_on_cursor_motion\<close> only notifies the idle timer
  and sends the relative motion: the cursor stays where it was (it is not moved to the
  rectangle's edge), and neither the hovered window, the pointer focus nor the stack
  changes.
\<close>

theorem cursor_motion_dropped_outside_constraint:
  assumes "qtile s = Some q" and "active_pointer_constraint s = Some a"
    and "\<not> rect_contains_point (constraint_of s a)
             (cursor_x s + mo_delta_x event) (cursor_y s + mo_delta_y event)"
  shows "\<exists>s'. on_cursor_motion s event = Inr s'
     \<and> s' = s\<lparr>effects := effects s
               @ [Idle_notify_activity,
                  Send_relative_motion (mo_time_msec event * 1000)
                    (mo_delta_x event) (mo_delta_y event)
                    (mo_unaccel_delta_x event) (mo_unaccel_delta_y event)]\<rparr>
     \<and> cursor_x s' = cursor_x s \<and> cursor_y s' = cursor_y s
     \<and> hovered_window s' = hovered_window s
     \<and> pointer_focused_surface s' = pointer_focused_surface s
     \<and> current_output s' = current_output s \<and> stacked_windows s' = stacked_windows s"
  using assms by (simp add: on_cursor_motion_def emit_def Let_def)

theorem cursor_motion_dropped_outside_constraint_witness:
  "qtile constrained_scene = Some qtile0
   \<and> active_pointer_constraint constrained_scene = Some 1
   \<and> \<not> rect_contains_point (constraint_of constrained_scene 1)
         (cursor_x constrained_scene + 20) (cursor_y constrained_scene + 0)
   \<and> (\<exists>s'. on_cursor_motion constrained_scene
              \<lparr>mo_time_msec = 3, mo_delta_x = 20, mo_delta_y = 0,
               mo_unaccel_delta_x = 20, mo_unaccel_delta_y = 0\<rparr> = Inr s'
          \<and> cursor_x s' = 5 \<and> cursor_y s' = 5
          \<and> effects s' = [Idle_notify_activity, Send_relative_motion 3000 20 0 20 0])"
proof -
  let ?e = "\<lparr>mo_time_msec = 3, mo_delta_x = 20, mo_delta_y = 0,
               mo_unaccel_delta_x = 20, mo_unaccel_delta_y = 0\<rparr>"
  have q: "qtile constrained_scene = Some qtile0"
    by (simp add: constrained_scene_def)
  have a: "active_pointer_constraint constrained_scene = Some 1"
    by (simp add: constrained_scene_def)
  have o: "\<not> rect_contains_point (constraint_of constrained_scene 1)
         (cursor_x constrained_scene + mo_delta_x ?e) (cursor_y constrained_scene + mo_delta_y ?e)"
    by (simp add: constrained_scene_def)
  have c: "cursor_x constrained_scene = 5" "cursor_y constrained_scene = 5"
    "effects constrained_scene = []"
    by (simp_all add: constrained_scene_def core0_def)
  from cursor_motion_dropped_outside_constraint [OF q a o] c
  have "\<exists>s'. on_cursor_motion constrained_scene ?e = Inr s'
          \<and> cursor_x s' = 5 \<and> cursor_y s' = 5
          \<and> effects s' = [Idle_notify_activity, Send_relative_motion 3000 20 0 20 0]"
    by simp
  with q a o show ?thesis by simp
qed

subsection \<open>Scrolling\<close>

text \<open>
  Claim C8.  With the manager attached, \<open>_on_cursor_axis\<close> returns.  An event with a
  nonzero delta and no exclusive client is first offered to the bindings as a button
  click: button 4 for a negative and 5 for a positive vertical delta, 6 and 7 for a
  horizontal one.  Whenever no binding claims it, and always for a zero delta or with an
  exclusive client, the seat gets the native axis notification with the event's time,
  orientation, delta, discrete delta and source; a claimed event is not forwarded.
\<close>

theorem cursor_axis_binding_then_forward:
  assumes "qtile s = Some q"
  shows "\<exists>s'. on_cursor_axis s event = Inr s'
     \<and> (ax_delta event \<noteq> 0 \<longrightarrow>
          axis_button event =
            (if ax_orientation event = VERTICAL
             then (if ax_delta event < 0 then 4 else 5)
             else (if ax_delta event < 0 then 6 else 7)))
     \<and> (let offered = (ax_delta event \<noteq> 0 \<and> exclusive_client s = None);
             claimed = (offered \<and> button_click_handled q (axis_button event)
                          (keyboard_modifier s) (py_int (cursor_x s)) (py_int (cursor_y s)));
             native = Pointer_notify_axis (ax_time_msec event) (ax_orientation event)
                        (ax_delta event) (ax_delta_discrete event) (ax_source event)
         in s' = s\<lparr>effects := effects s
                 @ (if offered
                    then Qtile_process_button_click (axis_button event) (keyboard_modifier s)
                           (py_int (cursor_x s)) (py_int (cursor_y s))
                         # (case hovered_window s of
                              None \<Rightarrow> []
                            | Some h \<Rightarrow>
                                if is_internal s h
                                then [Internal_process_button_click h
                                        (py_int (cursor_x s - of_int (win_x (win_of s h))))
                                        (py_int (cursor_y s - of_int (win_y (win_of s h))))
                                        (axis_button event)]
                                else [])
                    else [])
                 @ (if claimed then [] else [native])\<rparr>)"
  using assms
  by (auto simp: on_cursor_axis_def process_cursor_button_def axis_button_def emit_def Let_def
      is_internal_def split: option.splits)

theorem cursor_axis_binding_then_forward_witness:
  "qtile (core0\<lparr>qtile := Some qtile0\<rparr>) = Some qtile0
   \<and> on_cursor_axis (core0\<lparr>qtile := Some qtile0\<rparr>)
        \<lparr>ax_time_msec = 42, ax_orientation = VERTICAL, ax_delta = 15,
         ax_delta_discrete = 1, ax_source = 0\<rparr>
      = Inr (core0\<lparr>qtile := Some qtile0,
                    effects := [Qtile_process_button_click 5 0 0 0,
                                Pointer_notify_axis 42 VERTICAL 15 1 0]\<rparr>)"
proof -
  have q: "qtile (core0\<lparr>qtile := Some qtile0\<rparr>) = Some qtile0" by simp
  show ?thesis
    using cursor_axis_binding_then_forward [OF q]
    by (simp add: on_cursor_axis_def process_cursor_button_def axis_button_def emit_def
        py_int_def core0_def qtile0_def Let_def)
qed

end
